theory Spec2Isabelle
  imports Main "HOL-Library.Multiset"
begin

section \<open>Catalogue data model (tienda/models.py)\<close>

text \<open>
  Python \<open>str\<close> values are modelled as \<open>string\<close>, the list of the bytes of their
  UTF-8 encoding; Python integers as \<open>int\<close>; nullable fields as \<open>option\<close>.
\<close>

subsection \<open>StockTalla\<close>

record StockTalla =
  st_producto :: nat
  st_talla :: string
  cantidad :: int

text \<open>
  \<^verbatim>\<open>
  def estado_stock(self):
      if self.cantidad == 0:    return 'sin_stock'
      elif self.cantidad <= 5:  return 'poco_stock'
      else:                     return 'buen_stock'
  \<close>
\<close>

definition estado_stock :: "StockTalla \<Rightarrow> string" where
  "estado_stock self =
     (if cantidad self = 0 then ''sin_stock''
      else if cantidad self \<le> 5 then ''poco_stock''
      else ''buen_stock'')"

subsection \<open>Categoria and Producto\<close>

record Categoria =
  cat_nombre :: string
  tipo :: string
  cat_descripcion :: "string option"
  cat_activo :: bool
  cat_orden :: int

text \<open>
  A stored product. \<open>pk\<close> is the primary key of its row, \<open>categoria\<close> the category object
  the foreign key resolves to, \<open>precio\<close> the whole-unit amount of the
  \<open>DecimalField(decimal_places=0)\<close>, and the two dates are timestamps.
\<close>

record Producto =
  pk :: nat
  nombre :: string
  slug :: string
  descripcion :: string
  categoria :: Categoria
  precio :: int
  activo :: bool
  destacado :: bool
  fecha_creacion :: int
  fecha_actualizacion :: int
  tipo_pantalon :: "string option"
  tipo_accesorio :: "string option"
  material :: "string option"
  dimensiones :: "string option"
  color :: "string option"
  stock_accesorio :: int
  caracteristicas :: "string option"

text \<open>
  The reverse relation \<open>self.stock_tallas\<close> (\<open>related_name='stock_tallas'\<close>): the rows of
  the StockTalla table whose foreign key is this product.
\<close>

definition stock_tallas :: "StockTalla list \<Rightarrow> Producto \<Rightarrow> StockTalla list" where
  "stock_tallas tbl self = filter (\<lambda>st. st_producto st = pk self) tbl"

text \<open>
  \<^verbatim>\<open>
  def tiene_stock(self):
      if self.categoria.tipo == 'accesorio':
          return self.stock_accesorio > 0
      else:
          return self.stock_tallas.filter(cantidad__gt=0).exists()
  \<close>
\<close>

definition tiene_stock :: "StockTalla list \<Rightarrow> Producto \<Rightarrow> bool" where
  "tiene_stock tbl self =
     (if tipo (categoria self) = ''accesorio'' then stock_accesorio self > 0
      else filter (\<lambda>st. cantidad st > 0) (stock_tallas tbl self) \<noteq> [])"

text \<open>
  \<^verbatim>\<open>
  def stock_total(self):
      if self.categoria.tipo == 'accesorio':
          return self.stock_accesorio
      else:
          return sum(st.cantidad for st in self.stock_tallas.all())
  \<close>
  Python's \<open>sum\<close> adds the items to 0 from left to right.
\<close>

definition py_sum :: "int list \<Rightarrow> int" where
  "py_sum xs = fold (\<lambda>x acc. acc + x) xs 0"

definition stock_total :: "StockTalla list \<Rightarrow> Producto \<Rightarrow> int" where
  "stock_total tbl self =
     (if tipo (categoria self) = ''accesorio'' then stock_accesorio self
      else py_sum (map cantidad (stock_tallas tbl self)))"

subsection \<open>Producto.save\<close>




subsection \<open>ImagenProducto\<close>

record ImagenProducto =
  img_pk :: nat
  producto :: nat
  imagen :: string
  orden :: int
  es_principal :: bool

text \<open>
  \<open>ImagenProducto.objects.filter(producto=self.producto, es_principal=True)
  .update(es_principal=False)\<close>: every row of the product whose flag is set gets it cleared.
\<close>

definition clear_principal :: "nat \<Rightarrow> ImagenProducto list \<Rightarrow> ImagenProducto list" where
  "clear_principal p tbl =
     map (\<lambda>r. if producto r = p \<and> es_principal r then r\<lparr>es_principal := False\<rparr> else r) tbl"

text \<open>\<open>super().save()\<close> for an image: update the row with the object's key, else insert.\<close>

definition Model_save_Imagen :: "ImagenProducto list \<Rightarrow> ImagenProducto \<Rightarrow> ImagenProducto list" where
  "Model_save_Imagen tbl self =
     (if \<exists>r \<in> set tbl. img_pk r = img_pk self
        then map (\<lambda>r. if img_pk r = img_pk self then self else r) tbl
      else tbl @ [self])"

text \<open>
  \<^verbatim>\<open>
  def save(self, *args, **kwargs):
      if self.es_principal:
          ImagenProducto.objects.filter(producto=self.producto,
                                        es_principal=True).update(es_principal=False)
      super().save(*args, **kwargs)
  \<close>
\<close>

definition ImagenProducto_save :: "ImagenProducto list \<Rightarrow> ImagenProducto \<Rightarrow> ImagenProducto list" where
  "ImagenProducto_save tbl self =
     Model_save_Imagen (if es_principal self then clear_principal (producto self) tbl else tbl) self"

text \<open>The image tables that save operations produce, starting from the empty table.\<close>

inductive reachable :: "ImagenProducto list \<Rightarrow> bool" where
  empty: "reachable []"
| save: "reachable tbl \<Longrightarrow> reachable (ImagenProducto_save tbl img)"

text \<open>The images of product \<open>p\<close> that are marked as principal.\<close>

definition principales :: "ImagenProducto list \<Rightarrow> nat \<Rightarrow> ImagenProducto list" where
  "principales tbl p = filter (\<lambda>r. producto r = p \<and> es_principal r) tbl"

text \<open>The row stored under a primary key.\<close>

definition get_imagen :: "ImagenProducto list \<Rightarrow> nat \<Rightarrow> ImagenProducto option" where
  "get_imagen tbl k = find (\<lambda>r. img_pk r = k) tbl"

subsection \<open>Default ordering of products\<close>

text \<open>
  A term of a \<open>Meta.ordering\<close> list: a field read as a number, ascending, or descending
  when the name carries a leading \<open>-\<close>. Booleans order as 0 and 1.
\<close>

datatype 'a order_term = Asc "'a \<Rightarrow> int" | Desc "'a \<Rightarrow> int"

text \<open>\<open>ordering = ['-destacado', '-fecha_creacion']\<close>\<close>

definition Producto_ordering :: "Producto order_term list" where
  "Producto_ordering = [Desc (\<lambda>p. of_bool (destacado p)), Desc fecha_creacion]"

text \<open>
  \<open>ORDER BY\<close> compares by the first term and goes on to the next term on a tie:
  \<open>precedes ts a b\<close> holds when row \<open>a\<close> may stand before row \<open>b\<close>.
\<close>

fun precedes :: "'a order_term list \<Rightarrow> 'a \<Rightarrow> 'a \<Rightarrow> bool" where
  "precedes [] a b = True"
| "precedes (Asc f # ts) a b = (f a < f b \<or> (f a = f b \<and> precedes ts a b))"
| "precedes (Desc f # ts) a b = (f b < f a \<or> (f a = f b \<and> precedes ts a b))"

fun insert_by :: "('a \<Rightarrow> 'a \<Rightarrow> bool) \<Rightarrow> 'a \<Rightarrow> 'a list \<Rightarrow> 'a list" where
  "insert_by le x [] = [x]"
| "insert_by le x (y # ys) = (if le x y then x # y # ys else y # insert_by le x ys)"

definition order_by :: "'a order_term list \<Rightarrow> 'a list \<Rightarrow> 'a list" where
  "order_by ts rows = foldr (insert_by (precedes ts)) rows []"

text \<open>\<open>Producto.objects.all()\<close>: the rows of the table in the default ordering.\<close>

definition Producto_all :: "Producto list \<Rightarrow> Producto list" where
  "Producto_all tbl = order_by Producto_ordering tbl"

subsection \<open>Formatted price\<close>

definition digit_char :: "nat \<Rightarrow> char" where
  "digit_char d = ''0123456789'' ! d"

fun str_nat :: "nat \<Rightarrow> string" where
  "str_nat n = (if n < 10 then [digit_char n] else str_nat (n div 10) @ [digit_char (n mod 10)])"

declare str_nat.simps [simp del]

text \<open>
  The \<open>,\<close> option of the format specification puts a comma after every third digit,
  counted from the right; \<open>group3\<close> works on the digits in reverse order.
\<close>

fun group3 :: "string \<Rightarrow> string" where
  "group3 (a # b # c # d # rest) = a # b # c # CHR '','' # group3 (d # rest)"
| "group3 ds = ds"

text \<open>\<open>format(n, ',.0f')\<close> for a whole amount \<open>n\<close>: sign, then the grouped digits, no point.\<close>

definition format_comma_0f :: "int \<Rightarrow> string" where
  "format_comma_0f n =
     (if n < 0 then ''-'' else []) @ rev (group3 (rev (str_nat (nat \<bar>n\<bar>))))"

text \<open>
  \<^verbatim>\<open>
  def precio_formateado(self):
      return f"${self.precio:,.0f}"
  \<close>
\<close>

definition precio_formateado :: "Producto \<Rightarrow> string" where
  "precio_formateado self = ''$'' @ format_comma_0f (precio self)"

text \<open>Reading a digit string back as a number, to state what the rendering denotes.\<close>

definition is_digit :: "char \<Rightarrow> bool" where
  "is_digit c \<longleftrightarrow> c \<in> set ''0123456789''"

definition digit_val :: "char \<Rightarrow> nat" where
  "digit_val c = of_char c - 48"

definition nat_of_digits :: "string \<Rightarrow> nat" where
  "nat_of_digits ds = fold (\<lambda>c acc. 10 * acc + digit_val c) ds 0"

subsection \<open>WhatsApp link\<close>

text \<open>
  The choices of \<open>tipo_pantalon\<close> and \<open>TIPO_ACCESORIO_CHOICES\<close>. Letters outside ASCII
  are written as the two bytes of their UTF-8 encoding.
\<close>

definition TIPO_PANTALON_CHOICES :: "(string \<times> string) list" where
  "TIPO_PANTALON_CHOICES =
     [(''short'', ''Short''),
      (''pantalon_largo'', ''Pantal'' @ [CHR 0xC3, CHR 0xB3] @ ''n Largo''),
      (''jogger'', ''Jogger'')]"

definition TIPO_ACCESORIO_CHOICES :: "(string \<times> string) list" where
  "TIPO_ACCESORIO_CHOICES =
     [(''mochila'', ''Mochila''),
      (''cinturon'', ''Cintur'' @ [CHR 0xC3, CHR 0xB3] @ ''n''),
      (''cartera'', ''Cartera''),
      (''cadena'', ''Cadena''),
      (''gorra'', ''Gorra''),
      (''llavero'', ''Llavero''),
      (''billetera'', ''Billetera''),
      (''ri'' @ [CHR 0xC3, CHR 0xB1] @ ''onera'', ''Ri'' @ [CHR 0xC3, CHR 0xB1] @ ''onera''),
      (''collar'', ''Collar''),
      (''pulsera'', ''Pulsera''),
      (''anillo'', ''Anillo''),
      (''bolso'', ''Bolso''),
      (''otro'', ''Otro'')]"

text \<open>
  \<open>get_FOO_display()\<close>: the label of the stored value, or the value itself when it is not
  among the choices.
\<close>

definition get_display :: "(string \<times> string) list \<Rightarrow> string \<Rightarrow> string" where
  "get_display choices v = (case map_of choices v of Some label \<Rightarrow> label | None \<Rightarrow> v)"

text \<open>Truth value of an optional string: \<open>None\<close> and the empty string are false.\<close>

fun truthy :: "string option \<Rightarrow> bool" where
  "truthy None = False"
| "truthy (Some v) = (v \<noteq> [])"

fun str_of :: "string option \<Rightarrow> string" where
  "str_of None = ''None''"
| "str_of (Some v) = v"

text \<open>
  \<open>urllib.parse.quote\<close> with its default \<open>safe='/'\<close>: the unreserved bytes and \<open>/\<close> stay,
  every other byte of the UTF-8 text becomes \<open>%XX\<close> in upper-case hexadecimal.
\<close>

definition always_safe :: string where
  "always_safe = ''ABCDEFGHIJKLMNOPQRSTUVWXYZabcdefghijklmnopqrstuvwxyz0123456789_.-~''"

definition hexdigit :: "nat \<Rightarrow> char" where
  "hexdigit n = ''0123456789ABCDEF'' ! n"

definition quote_byte :: "char \<Rightarrow> string" where
  "quote_byte c =
     (if c \<in> set always_safe \<or> c = CHR ''/'' then [c]
      else [CHR ''%'', hexdigit (of_char c div 16), hexdigit (of_char c mod 16)])"

definition quote :: "string \<Rightarrow> string" where
  "quote s = concat (map quote_byte s)"

text \<open>
  \<^verbatim>\<open>
  def get_whatsapp_url(self, talla=None):
      mensaje = f"Hola! Estoy interesado en: *{self.nombre}*\n"
      mensaje += f"Precio: ${self.precio:,.0f}\n"
      if talla:
          mensaje += f"Talla: {talla}\n"
      if self.tipo_pantalon:
          mensaje += f"Tipo: {self.get_tipo_pantalon_display()}\n"
      if self.tipo_accesorio:
          mensaje += f"Tipo: {self.get_tipo_accesorio_display()}\n"
      if self.color:
          mensaje += f"Color: {self.color}\n"
      mensaje += f"\n\u00bfEst\u00e1 disponible?"
      mensaje_encoded = urllib.parse.quote(mensaje)
      return f"https://wa.me/56992154182?text={mensaje_encoded}"
  \<close>
  \<open>mensaje\<close> is the text before encoding; the inverted question mark of the last line
  is the bytes C2 BF and its accented a the bytes C3 A1.
\<close>

definition mensaje :: "Producto \<Rightarrow> string option \<Rightarrow> string" where
  "mensaje self talla =
     (let m = ''Hola! Estoy interesado en: *'' @ nombre self @ ''*'' @ [CHR 0x0A];
          m = m @ ''Precio: $'' @ format_comma_0f (precio self) @ [CHR 0x0A];
          m = (if truthy talla then m @ ''Talla: '' @ str_of talla @ [CHR 0x0A] else m);
          m = (if truthy (tipo_pantalon self)
               then m @ ''Tipo: '' @ get_display TIPO_PANTALON_CHOICES (str_of (tipo_pantalon self))
                      @ [CHR 0x0A]
               else m);
          m = (if truthy (tipo_accesorio self)
               then m @ ''Tipo: '' @ get_display TIPO_ACCESORIO_CHOICES (str_of (tipo_accesorio self))
                      @ [CHR 0x0A]
               else m);
          m = (if truthy (color self) then m @ ''Color: '' @ str_of (color self) @ [CHR 0x0A] else m)
      in m @ [CHR 0x0A, CHR 0xC2, CHR 0xBF] @ ''Est'' @ [CHR 0xC3, CHR 0xA1] @ '' disponible?'')"

definition get_whatsapp_url :: "Producto \<Rightarrow> string option \<Rightarrow> string" where
  "get_whatsapp_url self talla = ''https://wa.me/56992154182?text='' @ quote (mensaje self talla)"

text \<open>
  Decoding of a query value, to state what the link carries: \<open>%XX\<close> with two
  hexadecimal digits is the byte \<open>XX\<close>, any other byte is itself.
\<close>

definition is_hex :: "char \<Rightarrow> bool" where
  "is_hex c \<longleftrightarrow> c \<in> set ''0123456789ABCDEFabcdef''"

definition hexval :: "char \<Rightarrow> nat" where
  "hexval c =
     (if c \<in> set ''0123456789'' then of_char c - 48
      else if c \<in> set ''ABCDEF'' then of_char c - 55
      else of_char c - 87)"

fun unquote :: "string \<Rightarrow> string" where
  "unquote (c # a # b # rest) =
     (if c = CHR ''%'' \<and> is_hex a \<and> is_hex b
      then char_of (16 * hexval a + hexval b) # unquote rest
      else c # unquote (a # b # rest))"
| "unquote s = s"

subsection \<open>Example rows\<close>

definition cat_polera :: Categoria where
  "cat_polera = \<lparr>cat_nombre = ''Poleras'', tipo = ''polera'', cat_descripcion = None,
     cat_activo = True, cat_orden = 0\<rparr>"

definition cat_accesorio :: Categoria where
  "cat_accesorio = \<lparr>cat_nombre = ''Accesorios'', tipo = ''accesorio'', cat_descripcion = None,
     cat_activo = True, cat_orden = 2\<rparr>"

definition polera_negra :: Producto where
  "polera_negra = \<lparr>pk = 1, nombre = ''Polera Negra'', slug = ''polera-negra'',
     descripcion = ''Polera'', categoria = cat_polera, precio = 9990, activo = True,
     destacado = False, fecha_creacion = 100, fecha_actualizacion = 100,
     tipo_pantalon = None, tipo_accesorio = None, material = None, dimensiones = None,
     color = None, stock_accesorio = 0, caracteristicas = None\<rparr>"

definition llavero :: Producto where
  "llavero = \<lparr>pk = 2, nombre = ''Llavero'', slug = ''llavero'',
     descripcion = ''Llavero'', categoria = cat_accesorio, precio = 15000, activo = True,
     destacado = True, fecha_creacion = 200, fecha_actualizacion = 200,
     tipo_pantalon = None, tipo_accesorio = Some ''llavero'', material = None,
     dimensiones = None, color = Some ''Rojo'', stock_accesorio = 0, caracteristicas = None\<rparr>"

definition tallas_polera :: "StockTalla list" where
  "tallas_polera = [\<lparr>st_producto = 1, st_talla = ''S'', cantidad = 0\<rparr>,
                    \<lparr>st_producto = 1, st_talla = ''M'', cantidad = 3\<rparr>,
                    \<lparr>st_producto = 1, st_talla = ''L'', cantidad = 0\<rparr>,
                    \<lparr>st_producto = 2, st_talla = ''M'', cantidad = 4\<rparr>]"

definition imagen_A :: ImagenProducto where
  "imagen_A = \<lparr>img_pk = 1, producto = 7, imagen = ''productos/a.jpg'', orden = 0,
     es_principal = True\<rparr>"

definition imagen_B :: ImagenProducto where
  "imagen_B = \<lparr>img_pk = 2, producto = 7, imagen = ''productos/b.jpg'', orden = 1,
     es_principal = False\<rparr>"


section \<open>Stock-level classification\<close>

text \<open>
  C5: on a row with a non-negative quantity, \<open>estado_stock\<close> is \<open>sin_stock\<close> exactly for
  quantity 0, \<open>poco_stock\<close> exactly for quantities 1 to 5 and \<open>buen_stock\<close> exactly for
  quantities above 5; quantity 5 is \<open>poco_stock\<close> and quantity 6 is \<open>buen_stock\<close>.
\<close>

theorem estado_stock_boundaries:
  assumes "0 \<le> cantidad s"
  shows "(estado_stock s = ''sin_stock'' \<longleftrightarrow> cantidad s = 0)
       \<and> (estado_stock s = ''poco_stock'' \<longleftrightarrow> 1 \<le> cantidad s \<and> cantidad s \<le> 5)
       \<and> (estado_stock s = ''buen_stock'' \<longleftrightarrow> 5 < cantidad s)
       \<and> estado_stock (s\<lparr>cantidad := 5\<rparr>) = ''poco_stock''
       \<and> estado_stock (s\<lparr>cantidad := 6\<rparr>) = ''buen_stock''"
  using assms by (auto simp: estado_stock_def)

theorem estado_stock_boundaries_witness:
  "0 \<le> cantidad \<lparr>st_producto = 1, st_talla = ''M'', cantidad = 3\<rparr>
   \<and> estado_stock \<lparr>st_producto = 1, st_talla = ''M'', cantidad = 3\<rparr> = ''poco_stock''
   \<and> estado_stock \<lparr>st_producto = 1, st_talla = ''M'', cantidad = 0\<rparr> = ''sin_stock''
   \<and> estado_stock \<lparr>st_producto = 1, st_talla = ''M'', cantidad = 6\<rparr> = ''buen_stock''"
  using estado_stock_boundaries [of "\<lparr>st_producto = 1, st_talla = ''M'', cantidad = 3\<rparr>"]
    estado_stock_boundaries [of "\<lparr>st_producto = 1, st_talla = ''M'', cantidad = 0\<rparr>"]
    estado_stock_boundaries [of "\<lparr>st_producto = 1, st_talla = ''M'', cantidad = 6\<rparr>"]
  by simp

text \<open>
  C10: \<open>estado_stock\<close> returns one of its three values on every integer quantity; on a
  negative quantity it returns \<open>poco_stock\<close>, not \<open>sin_stock\<close>: \<open>sin_stock\<close> is returned
  only for quantity 0, and every quantity at most 5 other than 0 gives \<open>poco_stock\<close>.
\<close>

theorem estado_stock_negative:
  "estado_stock s \<in> {''sin_stock'', ''poco_stock'', ''buen_stock''}
   \<and> (cantidad s < 0 \<longrightarrow> estado_stock s = ''poco_stock'' \<and> estado_stock s \<noteq> ''sin_stock'')
   \<and> (estado_stock s = ''sin_stock'' \<longleftrightarrow> cantidad s = 0)
   \<and> (cantidad s \<le> 5 \<and> cantidad s \<noteq> 0 \<longrightarrow> estado_stock s = ''poco_stock'')"
  by (auto simp: estado_stock_def)

theorem estado_stock_negative_witness:
  "cantidad \<lparr>st_producto = 1, st_talla = ''S'', cantidad = - 2\<rparr> < 0
   \<and> estado_stock \<lparr>st_producto = 1, st_talla = ''S'', cantidad = - 2\<rparr> = ''poco_stock''"
  using estado_stock_negative [of "\<lparr>st_producto = 1, st_talla = ''S'', cantidad = - 2\<rparr>"]
  by simp

section \<open>Availability and stock aggregation\<close>

lemma py_sum_fold: "fold (\<lambda>x acc. acc + x) xs (a::int) = a + sum_list xs"
  by (induction xs arbitrary: a) auto

lemma py_sum_sum_list: "py_sum xs = sum_list xs"
  by (simp add: py_sum_def py_sum_fold)

text \<open>
  C1: \<open>tiene_stock\<close> branches on the category type. For an \<open>accesorio\<close> it is true exactly
  when \<open>stock_accesorio > 0\<close>, whatever StockTalla rows exist; otherwise it is true exactly
  when some StockTalla row of the product has \<open>cantidad > 0\<close>.
\<close>

theorem tiene_stock_branches:
  "(tipo (categoria p) = ''accesorio'' \<longrightarrow>
      (tiene_stock tbl p \<longleftrightarrow> stock_accesorio p > 0) \<and> tiene_stock tbl p = tiene_stock tbl' p)
   \<and> (tipo (categoria p) \<noteq> ''accesorio'' \<longrightarrow>
      (tiene_stock tbl p \<longleftrightarrow> (\<exists>st \<in> set tbl. st_producto st = pk p \<and> cantidad st > 0)))"
  by (auto simp: tiene_stock_def stock_tallas_def filter_empty_conv)

theorem tiene_stock_branches_witness:
  "tipo (categoria polera_negra) \<noteq> ''accesorio'' \<and> tiene_stock tallas_polera polera_negra
   \<and> tipo (categoria llavero) = ''accesorio'' \<and> \<not> tiene_stock tallas_polera llavero"
  using tiene_stock_branches [of polera_negra tallas_polera "[]"]
    tiene_stock_branches [of llavero tallas_polera "[]"]
  by (simp add: polera_negra_def llavero_def cat_polera_def cat_accesorio_def tallas_polera_def)

text \<open>
  C2: \<open>stock_total\<close> is \<open>stock_accesorio\<close> for an \<open>accesorio\<close>, and otherwise the sum of
  \<open>cantidad\<close> over the StockTalla rows of the product; a product of another category
  without rows has total 0.
\<close>

theorem stock_total_branches:
  "(tipo (categoria p) = ''accesorio'' \<longrightarrow> stock_total tbl p = stock_accesorio p)
   \<and> (tipo (categoria p) \<noteq> ''accesorio'' \<longrightarrow>
        stock_total tbl p = (\<Sum>st \<leftarrow> tbl. if st_producto st = pk p then cantidad st else 0))
   \<and> (tipo (categoria p) \<noteq> ''accesorio'' \<and> (\<forall>st \<in> set tbl. st_producto st \<noteq> pk p) \<longrightarrow>
        stock_total tbl p = 0)"
proof -
  have "sum_list (map cantidad (filter (\<lambda>st. st_producto st = pk p) t))
      = (\<Sum>st \<leftarrow> t. if st_producto st = pk p then cantidad st else 0)" for t :: "StockTalla list"
    by (induction t) auto
  moreover have "filter (\<lambda>st. st_producto st = pk p) tbl = []"
    if "\<forall>st \<in> set tbl. st_producto st \<noteq> pk p"
    using that by (simp add: filter_empty_conv)
  ultimately show ?thesis
    by (auto simp: stock_total_def stock_tallas_def py_sum_sum_list)
qed

theorem stock_total_branches_witness:
  "tipo (categoria polera_negra) \<noteq> ''accesorio''
   \<and> stock_total tallas_polera polera_negra = 3
   \<and> stock_total [] polera_negra = 0
   \<and> tipo (categoria llavero) = ''accesorio'' \<and> stock_total tallas_polera llavero = 0"
  using stock_total_branches [of polera_negra tallas_polera]
    stock_total_branches [of polera_negra "[]"]
    stock_total_branches [of llavero tallas_polera]
  by (simp add: polera_negra_def llavero_def cat_polera_def cat_accesorio_def tallas_polera_def)

section \<open>Slug assignment on save\<close>



section \<open>Principal image\<close>

lemma clear_principal_pks: "map img_pk (clear_principal p tbl) = map img_pk tbl"
  by (induction tbl) (auto simp: clear_principal_def)

lemma Model_save_Imagen_distinct:
  "distinct (map img_pk tbl) \<Longrightarrow> distinct (map img_pk (Model_save_Imagen tbl img))"
proof -
  have eq: "map (img_pk \<circ> (\<lambda>r. if img_pk r = img_pk img then img else r)) tbl = map img_pk tbl"
    by (induction tbl) auto
  show "distinct (map img_pk tbl) \<Longrightarrow> ?thesis"
    by (auto simp: Model_save_Imagen_def eq)
qed

lemma reachable_distinct: "reachable tbl \<Longrightarrow> distinct (map img_pk tbl)"
  by (induction rule: reachable.induct)
     (auto simp: ImagenProducto_save_def clear_principal_pks intro!: Model_save_Imagen_distinct)

lemma principales_clear: "principales (clear_principal p tbl) p = []"
  by (induction tbl) (auto simp: principales_def clear_principal_def)

lemma principales_clear_other: "q \<noteq> p \<Longrightarrow> principales (clear_principal p tbl) q = principales tbl q"
  by (induction tbl) (auto simp: principales_def clear_principal_def)

lemma principales_upsert_principal:
  assumes "distinct (map img_pk tbl)" "principales tbl (producto img) = []" "es_principal img"
  shows "principales (Model_save_Imagen tbl img) (producto img) = [img]"
proof -
  have "distinct (map img_pk t) \<Longrightarrow> principales t (producto img) = [] \<Longrightarrow>
        principales (map (\<lambda>r. if img_pk r = img_pk img then img else r) t) (producto img)
          = (if img_pk img \<in> img_pk ` set t then [img] else [])" for t
    using assms(3)
    by (induction t) (auto simp: principales_def split: if_splits)
  with assms show ?thesis
    by (auto simp: Model_save_Imagen_def principales_def image_iff)
qed

lemma principales_upsert_le:
  assumes "producto img \<noteq> p \<or> \<not> es_principal img"
  shows "length (principales (Model_save_Imagen tbl img) p) \<le> length (principales tbl p)"
proof -
  have "length (principales (map (\<lambda>r. if img_pk r = img_pk img then img else r) t) p)
          \<le> length (principales t p)" for t
    using assms by (induction t) (auto simp: principales_def)
  with assms show ?thesis
    by (auto simp: Model_save_Imagen_def principales_def)
qed

lemma save_principal:
  assumes "distinct (map img_pk tbl)" "es_principal img"
  shows "principales (ImagenProducto_save tbl img) (producto img) = [img]"
  using assms
  by (simp add: ImagenProducto_save_def principales_upsert_principal principales_clear
      clear_principal_pks)

lemma save_at_most_one:
  assumes "distinct (map img_pk tbl)" "length (principales tbl p) \<le> 1"
  shows "length (principales (ImagenProducto_save tbl img) p) \<le> 1"
proof (cases "es_principal img \<and> producto img = p")
  case True
  with assms(1) show ?thesis using save_principal [of tbl img] by auto
next
  case False
  then have "length (principales (ImagenProducto_save tbl img) p)
               \<le> length (principales
                    (if es_principal img then clear_principal (producto img) tbl else tbl) p)"
    unfolding ImagenProducto_save_def by (intro principales_upsert_le) auto
  also have "\<dots> = length (principales tbl p)"
    using False by (auto simp: principales_clear_other)
  finally show ?thesis using assms(2) by simp
qed

lemma reachable_at_most_one: "reachable tbl \<Longrightarrow> length (principales tbl p) \<le> 1"
proof (induction rule: reachable.induct)
  case empty
  then show ?case by (simp add: principales_def)
next
  case (save tbl img)
  then show ?case by (intro save_at_most_one reachable_distinct)
qed

lemma get_imagen_upsert:
  "k \<noteq> img_pk img \<Longrightarrow> get_imagen (Model_save_Imagen tbl img) k = get_imagen tbl k"
proof -
  assume k: "k \<noteq> img_pk img"
  have "find (\<lambda>r. img_pk r = k) (map (\<lambda>r. if img_pk r = img_pk img then img else r) t)
          = find (\<lambda>r. img_pk r = k) t" for t
    using k by (induction t) auto
  moreover have "find (\<lambda>r. img_pk r = k) (t @ [img]) = find (\<lambda>r. img_pk r = k) t" for t
    using k by (induction t) auto
  ultimately show ?thesis
    by (simp add: get_imagen_def Model_save_Imagen_def)
qed

text \<open>
  C4: in every image table that save operations produce, after saving an image at most
  one image of its product is principal. When the saved image is marked principal, it is
  the only principal image of its product and every other image of the product has the
  flag cleared: with A principal and B not, saving B as principal leaves B as the one
  principal image and A not principal.
\<close>

theorem save_principal_exclusive:
  assumes "reachable tbl"
  shows "length (principales (ImagenProducto_save tbl img) (producto img)) \<le> 1
       \<and> (es_principal img \<longrightarrow>
            principales (ImagenProducto_save tbl img) (producto img) = [img]
          \<and> (\<forall>r \<in> set (ImagenProducto_save tbl img).
                producto r = producto img \<and> img_pk r \<noteq> img_pk img \<longrightarrow> \<not> es_principal r))"
proof -
  have "reachable (ImagenProducto_save tbl img)"
    using assms by (rule reachable.save)
  then have one: "length (principales (ImagenProducto_save tbl img) (producto img)) \<le> 1"
    by (rule reachable_at_most_one)
  have "principales (ImagenProducto_save tbl img) (producto img) = [img]" if "es_principal img"
    using that assms by (simp add: save_principal reachable_distinct)
  moreover have "\<not> es_principal r"
    if "es_principal img" "r \<in> set (ImagenProducto_save tbl img)" "producto r = producto img"
       "img_pk r \<noteq> img_pk img" for r
  proof
    assume "es_principal r"
    with that have "r \<in> set (principales (ImagenProducto_save tbl img) (producto img))"
      by (simp add: principales_def)
    with calculation that(1) have "r = img" by simp
    with that(4) show False by simp
  qed
  ultimately show ?thesis using one by blast
qed

theorem save_principal_exclusive_witness:
  "reachable (ImagenProducto_save (ImagenProducto_save [] imagen_A) imagen_B)
   \<and> principales (ImagenProducto_save (ImagenProducto_save [] imagen_A) imagen_B) 7 = [imagen_A]
   \<and> es_principal (imagen_B\<lparr>es_principal := True\<rparr>)
   \<and> principales
        (ImagenProducto_save (ImagenProducto_save (ImagenProducto_save [] imagen_A) imagen_B)
           (imagen_B\<lparr>es_principal := True\<rparr>)) 7 = [imagen_B\<lparr>es_principal := True\<rparr>]
   \<and> map_option es_principal
        (get_imagen
          (ImagenProducto_save (ImagenProducto_save (ImagenProducto_save [] imagen_A) imagen_B)
             (imagen_B\<lparr>es_principal := True\<rparr>)) 1) = Some False"
proof -
  let ?t = "ImagenProducto_save (ImagenProducto_save [] imagen_A) imagen_B"
  let ?B = "imagen_B\<lparr>es_principal := True\<rparr>"
  have r: "reachable ?t"
    by (intro reachable.intros)
  have t: "?t = [imagen_A, imagen_B]"
    by (simp add: imagen_A_def imagen_B_def ImagenProducto_save_def Model_save_Imagen_def
        clear_principal_def)
  have t': "ImagenProducto_save [imagen_A, imagen_B] ?B = [imagen_A\<lparr>es_principal := False\<rparr>, ?B]"
    by (simp add: imagen_A_def imagen_B_def ImagenProducto_save_def Model_save_Imagen_def
        clear_principal_def)
  have b: "es_principal ?B" "producto ?B = 7"
    by (simp_all add: imagen_B_def)
  have "principales (ImagenProducto_save ?t ?B) 7 = [?B]"
    using save_principal_exclusive [OF r, of ?B] b by simp
  moreover have "principales ?t 7 = [imagen_A]"
    unfolding t by (simp add: principales_def imagen_A_def imagen_B_def)
  moreover have "map_option es_principal (get_imagen (ImagenProducto_save ?t ?B) 1) = Some False"
    unfolding t t' by (simp add: get_imagen_def imagen_A_def imagen_B_def)
  ultimately show ?thesis using r b(1) by simp
qed

text \<open>
  C9: saving an image that is not marked principal leaves every other row of the table as
  it was, so the flags of the other images of the product are unchanged; and a product can
  be left without any principal image: saving the only principal image with the flag
  unset leaves none.
\<close>

theorem save_not_principal_frame:
  "(\<not> es_principal img \<longrightarrow>
      (\<forall>k. k \<noteq> img_pk img \<longrightarrow> get_imagen (ImagenProducto_save tbl img) k = get_imagen tbl k))
   \<and> principales (ImagenProducto_save [imagen_A] (imagen_A\<lparr>es_principal := False\<rparr>)) 7 = []"
proof (intro conjI impI allI)
  fix k assume "\<not> es_principal img" "k \<noteq> img_pk img"
  then show "get_imagen (ImagenProducto_save tbl img) k = get_imagen tbl k"
    by (simp add: ImagenProducto_save_def get_imagen_upsert)
qed (simp add: imagen_A_def ImagenProducto_save_def Model_save_Imagen_def principales_def)

theorem save_not_principal_frame_witness:
  "\<not> es_principal imagen_B
   \<and> get_imagen (ImagenProducto_save [imagen_A] imagen_B) 1 = Some imagen_A
   \<and> principales (ImagenProducto_save [imagen_A] imagen_B) 7 = [imagen_A]"
  using save_not_principal_frame [of imagen_B "[imagen_A]"]
  by (simp add: imagen_A_def imagen_B_def ImagenProducto_save_def Model_save_Imagen_def
      principales_def get_imagen_def)

section \<open>Default ordering\<close>

lemma precedes_total: "precedes ts a b \<or> precedes ts b a"
proof (induction ts)
  case Nil
  then show ?case by simp
next
  case (Cons t ts)
  then show ?case by (cases t) auto
qed

lemma precedes_trans: "precedes ts a b \<Longrightarrow> precedes ts b c \<Longrightarrow> precedes ts a c"
proof (induction ts)
  case Nil
  then show ?case by simp
next
  case (Cons t ts)
  then show ?case by (cases t) auto
qed

lemma set_insert_by: "set (insert_by le x ys) = insert x (set ys)"
  by (induction ys) auto

lemma mset_insert_by: "mset (insert_by le x ys) = add_mset x (mset ys)"
  by (induction ys) auto

lemma sorted_insert_by:
  assumes total: "\<And>a b. le a b \<or> le b a"
    and trans: "\<And>a b c. le a b \<Longrightarrow> le b c \<Longrightarrow> le a c"
  shows "sorted_wrt le ys \<Longrightarrow> sorted_wrt le (insert_by le x ys)"
proof (induction ys)
  case Nil
  then show ?case by simp
next
  case (Cons y ys)
  show ?case
  proof (cases "le x y")
    case True
    with Cons.prems show ?thesis by (auto intro: trans)
  next
    case False
    with total have "le y x" by blast
    with False Cons show ?thesis by (auto simp: set_insert_by)
  qed
qed

lemma mset_order_by: "mset (order_by ts rows) = mset rows"
  by (induction rows) (auto simp: order_by_def mset_insert_by)

lemma sorted_order_by: "sorted_wrt (precedes ts) (order_by ts rows)"
proof (induction rows)
  case Nil
  then show ?case by (simp add: order_by_def)
next
  case (Cons r rows)
  have "sorted_wrt (precedes ts) (insert_by (precedes ts) r (order_by ts rows))"
    using Cons by (intro sorted_insert_by precedes_total) (auto intro: precedes_trans)
  then show ?case by (simp add: order_by_def)
qed

text \<open>
  C8: the default listing holds the rows of the table, featured products stand before
  products that are not featured, and among products with the same featured flag the
  one created later stands first.
\<close>

theorem default_ordering:
  "mset (Producto_all tbl) = mset tbl
   \<and> (\<forall>i j. i < j \<and> j < length (Producto_all tbl) \<longrightarrow>
         (destacado (Producto_all tbl ! j) \<longrightarrow> destacado (Producto_all tbl ! i))
       \<and> (destacado (Producto_all tbl ! i) = destacado (Producto_all tbl ! j) \<longrightarrow>
            fecha_creacion (Producto_all tbl ! j) \<le> fecha_creacion (Producto_all tbl ! i)))"
proof -
  have s: "sorted_wrt (precedes Producto_ordering) (Producto_all tbl)"
    unfolding Producto_all_def by (rule sorted_order_by)
  have "precedes Producto_ordering (Producto_all tbl ! i) (Producto_all tbl ! j)"
    if "i < j" "j < length (Producto_all tbl)" for i j
    using s that by (simp add: sorted_wrt_iff_nth_less)
  then have "(destacado (Producto_all tbl ! j) \<longrightarrow> destacado (Producto_all tbl ! i))
       \<and> (destacado (Producto_all tbl ! i) = destacado (Producto_all tbl ! j) \<longrightarrow>
            fecha_creacion (Producto_all tbl ! j) \<le> fecha_creacion (Producto_all tbl ! i))"
    if "i < j" "j < length (Producto_all tbl)" for i j
    using that by (fastforce simp: Producto_ordering_def split: if_splits)
  moreover have "mset (Producto_all tbl) = mset tbl"
    by (simp add: Producto_all_def mset_order_by)
  ultimately show ?thesis by blast
qed

theorem default_ordering_witness:
  "map pk (Producto_all [polera_negra, llavero, polera_negra\<lparr>pk := 3, fecha_creacion := 300\<rparr>]) = [2, 3, 1]
   \<and> (0::nat) < 1 \<and> 1 < length (Producto_all [polera_negra, llavero, polera_negra\<lparr>pk := 3, fecha_creacion := 300\<rparr>])
   \<and> destacado (Producto_all [polera_negra, llavero, polera_negra\<lparr>pk := 3, fecha_creacion := 300\<rparr>] ! 0)
   \<and> \<not> destacado (Producto_all [polera_negra, llavero, polera_negra\<lparr>pk := 3, fecha_creacion := 300\<rparr>] ! 1)"
proof -
  let ?t = "[polera_negra, llavero, polera_negra\<lparr>pk := 3, fecha_creacion := 300\<rparr>]"
  have v: "Producto_all ?t = [llavero, polera_negra\<lparr>pk := 3, fecha_creacion := 300\<rparr>, polera_negra]"
    by (simp add: Producto_all_def order_by_def Producto_ordering_def polera_negra_def llavero_def)
  have "(0::nat) < 1 \<and> 1 < length (Producto_all ?t)" unfolding v by simp
  with default_ordering [of ?t] have
    "(destacado (Producto_all ?t ! 1) \<longrightarrow> destacado (Producto_all ?t ! 0))" by blast
  then show ?thesis unfolding v by (simp add: polera_negra_def llavero_def)
qed

section \<open>Formatted price\<close>

lemma digit_char_facts:
  assumes "d < 10"
  shows "is_digit (digit_char d)" "digit_val (digit_char d) = d" "digit_char d \<noteq> CHR '',''"
    "digit_char d = CHR ''0'' \<longleftrightarrow> d = 0"
proof -
  from assms have "d \<in> {0, 1, 2, 3, 4, 5, 6, 7, 8, 9}" by auto
  then show "is_digit (digit_char d)" "digit_val (digit_char d) = d" "digit_char d \<noteq> CHR '',''"
    "digit_char d = CHR ''0'' \<longleftrightarrow> d = 0"
    by (auto simp: digit_char_def is_digit_def digit_val_def)
qed

lemma nat_of_digits_snoc: "nat_of_digits (ds @ [c]) = 10 * nat_of_digits ds + digit_val c"
  by (simp add: nat_of_digits_def)

lemma str_nat_not_Nil: "str_nat n \<noteq> []"
  by (subst str_nat.simps) simp

lemma nat_of_digits_str_nat: "nat_of_digits (str_nat n) = n"
proof (induction n rule: str_nat.induct)
  case (1 n)
  show ?case
  proof (cases "n < 10")
    case True
    then show ?thesis
      by (subst str_nat.simps) (simp add: nat_of_digits_def digit_char_facts)
  next
    case False
    with 1 show ?thesis
      by (subst str_nat.simps) (simp add: nat_of_digits_snoc digit_char_facts)
  qed
qed

lemma digits_str_nat: "list_all is_digit (str_nat n)"
proof (induction n rule: str_nat.induct)
  case (1 n)
  then show ?case
    by (subst str_nat.simps) (simp add: digit_char_facts)
qed

lemma hd_str_nat: "hd (str_nat n) = CHR ''0'' \<Longrightarrow> n = 0"
proof (induction n rule: str_nat.induct)
  case (1 n)
  show ?case
  proof (cases "n < 10")
    case True
    with "1.prems" show ?thesis
      by (subst (asm) str_nat.simps) (simp add: digit_char_facts)
  next
    case False
    with "1.prems" have "hd (str_nat (n div 10)) = CHR ''0''"
      by (subst (asm) str_nat.simps) (simp add: str_nat_not_Nil)
    with 1 False have "n div 10 = 0" by simp
    with False show ?thesis by simp
  qed
qed

lemma filter_group3: "CHR '','' \<notin> set ds \<Longrightarrow> filter (\<lambda>c. c \<noteq> CHR '','') (group3 ds) = ds"
  by (induction ds rule: group3.induct) auto

lemma set_group3: "set (group3 ds) \<subseteq> insert (CHR '','') (set ds)"
  by (induction ds rule: group3.induct) auto

lemma group3_not_Nil: "ds \<noteq> [] \<Longrightarrow> group3 ds \<noteq> []"
  by (induction ds rule: group3.induct) auto

lemma last_group3: "ds \<noteq> [] \<Longrightarrow> last (group3 ds) = last ds"
  by (induction ds rule: group3.induct) (auto simp: group3_not_Nil)

lemma comma_group3:
  "CHR '','' \<notin> set ds \<Longrightarrow> i < length (group3 ds) \<Longrightarrow> (group3 ds ! i = CHR '','') = (i mod 4 = 3)"
proof (induction ds arbitrary: i rule: group3.induct)
  case (1 a b c d rest)
  show ?case
  proof (cases "i < 4")
    case True
    then have "i \<in> {0, 1, 2, 3}" by auto
    with "1.prems" show ?thesis by auto
  next
    case False
    then obtain k where k: "i = k + 4" by (metis add.commute le_Suc_ex not_less)
    with "1.prems" have "(group3 (d # rest) ! k = CHR '','') = (k mod 4 = 3)"
      by (intro "1.IH") auto
    with k show ?thesis by simp
  qed
qed (auto simp: nth_Cons' less_Suc_eq)


lemma format_nonneg: "0 \<le> n \<Longrightarrow> format_comma_0f n = rev (group3 (rev (str_nat (nat n))))"
  by (simp add: format_comma_0f_def)

lemma str_nat_no_comma: "CHR '','' \<notin> set (str_nat n)"
proof
  assume "CHR '','' \<in> set (str_nat n)"
  with digits_str_nat [of n] have "is_digit (CHR '','')"
    by (auto simp: list_all_iff)
  then show False by (simp add: is_digit_def)
qed

text \<open>
  C6: for a non-negative price, \<open>precio_formateado\<close> is the dollar sign followed by the
  decimal digits of the amount, without leading zero and without a decimal point, with a
  comma before every group of three digits counted from the right; 15000 is rendered as
  \<open>$15,000\<close>.
\<close>

theorem precio_formateado_grouped:
  assumes "0 \<le> precio p"
  shows "\<exists>s. precio_formateado p = CHR ''$'' # s
           \<and> list_all is_digit (filter (\<lambda>c. c \<noteq> CHR '','') s)
           \<and> int (nat_of_digits (filter (\<lambda>c. c \<noteq> CHR '','') s)) = precio p
           \<and> (hd s = CHR ''0'' \<longrightarrow> precio p = 0)
           \<and> (\<forall>i < length s. (rev s ! i = CHR '','') = (i mod 4 = 3))
           \<and> s \<noteq> [] \<and> hd s \<noteq> CHR '','' \<and> CHR ''.'' \<notin> set s
           \<and> (precio p = 15000 \<longrightarrow> precio_formateado p = ''$15,000'')"
proof -
  define ds where "ds = str_nat (nat (precio p))"
  define s where "s = rev (group3 (rev ds))"
  have nc: "CHR '','' \<notin> set (rev ds)" and ne: "rev ds \<noteq> []"
    by (simp_all add: ds_def str_nat_no_comma str_nat_not_Nil)
  have f: "filter (\<lambda>c. c \<noteq> CHR '','') s = ds"
    using filter_group3 [OF nc] by (simp add: s_def rev_filter [symmetric])
  have 1: "precio_formateado p = CHR ''$'' # s"
    using assms by (simp add: precio_formateado_def format_nonneg s_def ds_def)
  have 2: "list_all is_digit (filter (\<lambda>c. c \<noteq> CHR '','') s)"
    unfolding f by (simp add: ds_def digits_str_nat)
  have 3: "int (nat_of_digits (filter (\<lambda>c. c \<noteq> CHR '','') s)) = precio p"
    unfolding f using assms by (simp add: ds_def nat_of_digits_str_nat)
  have 6: "s \<noteq> []"
    using group3_not_Nil [OF ne] by (simp add: s_def)
  have hd: "hd s = hd ds"
    using last_group3 [OF ne] ne group3_not_Nil [OF ne]
    by (simp add: s_def hd_rev last_rev)
  have 4: "hd s = CHR ''0'' \<longrightarrow> precio p = 0"
    using hd_str_nat [of "nat (precio p)"] assms by (auto simp: hd ds_def)
  have 5: "\<forall>i < length s. (rev s ! i = CHR '','') = (i mod 4 = 3)"
    using comma_group3 [OF nc] by (simp add: s_def)
  have "hd ds \<in> set ds" using ne by simp
  then have 7: "hd s \<noteq> CHR '',''" using nc by (auto simp: hd)
  have "set s \<subseteq> insert (CHR '','') (set ds)"
    using set_group3 [of "rev ds"] by (simp add: s_def)
  moreover have "CHR ''.'' \<notin> set ds"
  proof
    assume "CHR ''.'' \<in> set ds"
    with digits_str_nat [of "nat (precio p)"] have "is_digit (CHR ''.'')"
      by (auto simp: list_all_iff ds_def)
    then show False by (simp add: is_digit_def)
  qed
  ultimately have 8: "CHR ''.'' \<notin> set s" by auto
  have 9: "precio p = 15000 \<longrightarrow> precio_formateado p = ''$15,000''"
    by (simp add: precio_formateado_def format_comma_0f_def str_nat.simps digit_char_def)
  from 1 2 3 4 5 6 7 8 9 show ?thesis by blast
qed

theorem precio_formateado_grouped_witness:
  "0 \<le> precio llavero \<and> precio llavero = 15000 \<and> precio_formateado llavero = ''$15,000''"
proof -
  have a: "0 \<le> precio llavero" and b: "precio llavero = 15000"
    by (simp_all add: llavero_def)
  from precio_formateado_grouped [OF a] b show ?thesis by auto
qed

section \<open>WhatsApp link\<close>

lemma hexdigit_facts:
  assumes "n < 16"
  shows "is_hex (hexdigit n)" "hexval (hexdigit n) = n"
proof -
  from assms have "n \<in> {0, 1, 2, 3, 4, 5, 6, 7, 8, 9, 10, 11, 12, 13, 14, 15}" by (simp; arith)
  then show "is_hex (hexdigit n)" "hexval (hexdigit n) = n"
    by (auto simp: hexdigit_def is_hex_def hexval_def)
qed

lemma byte_of_nibbles: "char_of (16 * (of_char c div 16) + of_char c mod 16 :: nat) = c"
  by simp

lemma nibble_bound: "(of_char c :: nat) div 16 < 16"
proof -
  have "(of_char c :: nat) < 256" by simp
  then show ?thesis by arith
qed

lemma percent_not_safe: "c \<in> set always_safe \<or> c = CHR ''/'' \<Longrightarrow> c \<noteq> CHR ''%''"
  by (auto simp: always_safe_def)

lemma unquote_literal: "c \<noteq> CHR ''%'' \<Longrightarrow> unquote (c # ys) = c # unquote ys"
  by (cases ys rule: unquote.cases) auto

lemma unquote_quote_byte: "unquote (quote_byte c @ ys) = c # unquote ys"
proof (cases "c \<in> set always_safe \<or> c = CHR ''/''")
  case True
  then have "quote_byte c = [c]" by (simp add: quote_byte_def)
  with True show ?thesis by (simp add: unquote_literal percent_not_safe)
next
  case False
  then have "quote_byte c = [CHR ''%'', hexdigit (of_char c div 16), hexdigit (of_char c mod 16)]"
    by (simp add: quote_byte_def)
  then show ?thesis
    using byte_of_nibbles [of c]
    by (simp add: hexdigit_facts nibble_bound del: char_of_char of_char_of)
qed

lemma unquote_quote: "unquote (quote s) = s"
  by (induction s) (simp_all add: quote_def unquote_quote_byte)


lemma mensaje_lines:
  "mensaje p t =
     ''Hola! Estoy interesado en: *'' @ nombre p @ ''*'' @ [CHR 0x0A]
     @ ''Precio: '' @ precio_formateado p @ [CHR 0x0A]
     @ (if truthy t then ''Talla: '' @ str_of t @ [CHR 0x0A] else [])
     @ (if truthy (tipo_pantalon p)
        then ''Tipo: '' @ get_display TIPO_PANTALON_CHOICES (str_of (tipo_pantalon p)) @ [CHR 0x0A]
        else [])
     @ (if truthy (tipo_accesorio p)
        then ''Tipo: '' @ get_display TIPO_ACCESORIO_CHOICES (str_of (tipo_accesorio p)) @ [CHR 0x0A]
        else [])
     @ (if truthy (color p) then ''Color: '' @ str_of (color p) @ [CHR 0x0A] else [])
     @ [CHR 0x0A, CHR 0xC2, CHR 0xBF] @ ''Est'' @ [CHR 0xC3, CHR 0xA1] @ '' disponible?''"
  by (simp add: mensaje_def precio_formateado_def Let_def)

lemma format_9990: "format_comma_0f 9990 = ''9,990''"
  by (simp add: format_comma_0f_def str_nat.simps digit_char_def)

text \<open>
  C7: the link is the fixed base \<open>https://wa.me/56992154182\<close> followed by \<open>?text=\<close> and
  the percent-encoding of the message, and decoding that value gives the message back.
  The message is the greeting with the product name, the formatted price, then a size
  line when a size is given, a line with the label of the pants type when it is set, a line
  with the label of the accessory type when it is set, a colour line when the colour is
  set, and the closing question. For the product named Polera Negra at price 9990 in a
  polera category, with no pants type, accessory type or colour, and size M, the decoded
  text and the link are the ones written out below.
\<close>

theorem whatsapp_url:
  "get_whatsapp_url p t = ''https://wa.me/56992154182'' @ ''?text='' @ quote (mensaje p t)
   \<and> unquote (quote (mensaje p t)) = mensaje p t
   \<and> mensaje p t =
       ''Hola! Estoy interesado en: *'' @ nombre p @ ''*'' @ [CHR 0x0A]
       @ ''Precio: '' @ precio_formateado p @ [CHR 0x0A]
       @ (if truthy t then ''Talla: '' @ str_of t @ [CHR 0x0A] else [])
       @ (if truthy (tipo_pantalon p)
          then ''Tipo: '' @ get_display TIPO_PANTALON_CHOICES (str_of (tipo_pantalon p)) @ [CHR 0x0A]
          else [])
       @ (if truthy (tipo_accesorio p)
          then ''Tipo: '' @ get_display TIPO_ACCESORIO_CHOICES (str_of (tipo_accesorio p)) @ [CHR 0x0A]
          else [])
       @ (if truthy (color p) then ''Color: '' @ str_of (color p) @ [CHR 0x0A] else [])
       @ [CHR 0x0A, CHR 0xC2, CHR 0xBF] @ ''Est'' @ [CHR 0xC3, CHR 0xA1] @ '' disponible?''
   \<and> (nombre p = ''Polera Negra'' \<and> precio p = 9990 \<and> tipo (categoria p) = ''polera''
        \<and> \<not> truthy (tipo_pantalon p) \<and> \<not> truthy (tipo_accesorio p) \<and> \<not> truthy (color p) \<longrightarrow>
        unquote (quote (mensaje p (Some ''M''))) =
          ''Hola! Estoy interesado en: *Polera Negra*'' @ [CHR 0x0A] @ ''Precio: $9,990''
          @ [CHR 0x0A] @ ''Talla: M'' @ [CHR 0x0A, CHR 0x0A, CHR 0xC2, CHR 0xBF] @ ''Est''
          @ [CHR 0xC3, CHR 0xA1] @ '' disponible?''
        \<and> get_whatsapp_url p (Some ''M'') =
          ''https://wa.me/56992154182?text=Hola%21%20Estoy%20interesado%20en%3A%20%2APolera%20Negra%2A%0APrecio%3A%20%249%2C990%0ATalla%3A%20M%0A%0A%C2%BFEst%C3%A1%20disponible%3F'')"
proof (intro conjI)
  show "get_whatsapp_url p t = ''https://wa.me/56992154182'' @ ''?text='' @ quote (mensaje p t)"
    by (simp add: get_whatsapp_url_def)
  show "unquote (quote (mensaje p t)) = mensaje p t"
    by (rule unquote_quote)
  show "mensaje p t =
       ''Hola! Estoy interesado en: *'' @ nombre p @ ''*'' @ [CHR 0x0A]
       @ ''Precio: '' @ precio_formateado p @ [CHR 0x0A]
       @ (if truthy t then ''Talla: '' @ str_of t @ [CHR 0x0A] else [])
       @ (if truthy (tipo_pantalon p)
          then ''Tipo: '' @ get_display TIPO_PANTALON_CHOICES (str_of (tipo_pantalon p)) @ [CHR 0x0A]
          else [])
       @ (if truthy (tipo_accesorio p)
          then ''Tipo: '' @ get_display TIPO_ACCESORIO_CHOICES (str_of (tipo_accesorio p)) @ [CHR 0x0A]
          else [])
       @ (if truthy (color p) then ''Color: '' @ str_of (color p) @ [CHR 0x0A] else [])
       @ [CHR 0x0A, CHR 0xC2, CHR 0xBF] @ ''Est'' @ [CHR 0xC3, CHR 0xA1] @ '' disponible?''"
    by (rule mensaje_lines)
  show "nombre p = ''Polera Negra'' \<and> precio p = 9990 \<and> tipo (categoria p) = ''polera''
        \<and> \<not> truthy (tipo_pantalon p) \<and> \<not> truthy (tipo_accesorio p) \<and> \<not> truthy (color p) \<longrightarrow>
        unquote (quote (mensaje p (Some ''M''))) =
          ''Hola! Estoy interesado en: *Polera Negra*'' @ [CHR 0x0A] @ ''Precio: $9,990''
          @ [CHR 0x0A] @ ''Talla: M'' @ [CHR 0x0A, CHR 0x0A, CHR 0xC2, CHR 0xBF] @ ''Est''
          @ [CHR 0xC3, CHR 0xA1] @ '' disponible?''
        \<and> get_whatsapp_url p (Some ''M'') =
          ''https://wa.me/56992154182?text=Hola%21%20Estoy%20interesado%20en%3A%20%2APolera%20Negra%2A%0APrecio%3A%20%249%2C990%0ATalla%3A%20M%0A%0A%C2%BFEst%C3%A1%20disponible%3F''"
    unfolding unquote_quote
    by (simp add: get_whatsapp_url_def mensaje_def Let_def format_9990 quote_def quote_byte_def
        always_safe_def hexdigit_def)
qed

theorem whatsapp_url_witness:
  "nombre polera_negra = ''Polera Negra'' \<and> precio polera_negra = 9990
   \<and> tipo (categoria polera_negra) = ''polera''
   \<and> \<not> truthy (tipo_pantalon polera_negra) \<and> \<not> truthy (tipo_accesorio polera_negra)
   \<and> \<not> truthy (color polera_negra)
   \<and> unquote (quote (mensaje polera_negra (Some ''M''))) =
        ''Hola! Estoy interesado en: *Polera Negra*'' @ [CHR 0x0A] @ ''Precio: $9,990''
        @ [CHR 0x0A] @ ''Talla: M'' @ [CHR 0x0A, CHR 0x0A, CHR 0xC2, CHR 0xBF] @ ''Est''
        @ [CHR 0xC3, CHR 0xA1] @ '' disponible?''
   \<and> get_whatsapp_url polera_negra (Some ''M'') =
        ''https://wa.me/56992154182?text=Hola%21%20Estoy%20interesado%20en%3A%20%2APolera%20Negra%2A%0APrecio%3A%20%249%2C990%0ATalla%3A%20M%0A%0A%C2%BFEst%C3%A1%20disponible%3F''"
proof -
  have h: "nombre polera_negra = ''Polera Negra'' \<and> precio polera_negra = 9990
     \<and> tipo (categoria polera_negra) = ''polera''
     \<and> \<not> truthy (tipo_pantalon polera_negra) \<and> \<not> truthy (tipo_accesorio polera_negra)
     \<and> \<not> truthy (color polera_negra)"
    by (simp add: polera_negra_def cat_polera_def)
  with whatsapp_url [of polera_negra "Some ''M''"] show ?thesis by blast
qed

end
